theory Spec2Isabelle
  imports Complex_Main "HOL-Library.Multiset"
begin

section \<open>JavaScript values used by the wallet manager\<close>

text \<open>
  The wallet manager computes with JavaScript numbers that hold lovelace amounts. They are
  modelled as \<open>Num n\<close> for an integer \<open>n\<close>, or \<open>NaN\<close>, which is what \<open>parseInt\<close> yields
  on a string with no leading digits. Arithmetic on \<open>Num\<close> is integer arithmetic: this
  is what an IEEE double does while every operand and result has magnitude at most
  \<open>MAX_SAFE_INTEGER\<close>; beyond it a double rounds, which the model does not, so the
  properties below bound the amounts they speak of. Every comparison with \<open>NaN\<close> is
  false and every sum with \<open>NaN\<close> is \<open>NaN\<close>.
\<close>

datatype jsnum = NaN | Num int


fun js_add :: "jsnum \<Rightarrow> jsnum \<Rightarrow> jsnum" where
  "js_add (Num a) (Num b) = Num (a + b)"
| "js_add _ _ = NaN"

fun js_sub :: "jsnum \<Rightarrow> jsnum \<Rightarrow> jsnum" where
  "js_sub (Num a) (Num b) = Num (a - b)"
| "js_sub _ _ = NaN"

fun js_ge :: "jsnum \<Rightarrow> jsnum \<Rightarrow> bool" where
  "js_ge (Num a) (Num b) = (a \<ge> b)"
| "js_ge _ _ = False"

fun js_lt :: "jsnum \<Rightarrow> jsnum \<Rightarrow> bool" where
  "js_lt (Num a) (Num b) = (a < b)"
| "js_lt _ _ = False"

fun js_gt :: "jsnum \<Rightarrow> jsnum \<Rightarrow> bool" where
  "js_gt (Num a) (Num b) = (a > b)"
| "js_gt _ _ = False"

subsection \<open>\<open>parseInt(string)\<close> with no radix argument\<close>

text \<open>
  Leading white space is skipped, one sign is read, a \<open>0x\<close>/\<open>0X\<close> prefix selects radix 16
  (radix 10 otherwise), and the longest run of digits of that radix is the value. With no
  digit the result is \<open>NaN\<close>. Strings are byte strings here, so the white space is the
  ASCII white space (tab, line feed, vertical tab, form feed, carriage return, space).
  The value is the exact integer, which is what JavaScript returns up to
  \<open>MAX_SAFE_INTEGER\<close>; above it JavaScript returns the nearest double.
\<close>

definition is_js_space :: "char \<Rightarrow> bool" where
  "is_js_space c = (of_char c \<in> {9, 10, 11, 12, 13, 32 :: nat})"

definition digit_value :: "char \<Rightarrow> nat option" where
  "digit_value c =
     (let n = (of_char c :: nat) in
      if 48 \<le> n \<and> n \<le> 57 then Some (n - 48)
      else if 97 \<le> n \<and> n \<le> 122 then Some (n - 87)
      else if 65 \<le> n \<and> n \<le> 90 then Some (n - 55)
      else None)"

definition is_radix_digit :: "nat \<Rightarrow> char \<Rightarrow> bool" where
  "is_radix_digit r c = (case digit_value c of None \<Rightarrow> False | Some d \<Rightarrow> d < r)"

definition radix_value :: "nat \<Rightarrow> string \<Rightarrow> int" where
  "radix_value r ds = foldl (\<lambda>acc c. acc * int r + int (the (digit_value c))) 0 ds"

definition parse_digits :: "nat \<Rightarrow> int \<Rightarrow> string \<Rightarrow> jsnum" where
  "parse_digits r sign s =
     (let z = takeWhile (is_radix_digit r) s
      in if z = [] then NaN else Num (sign * radix_value r z))"

definition parse_prefix :: "int \<Rightarrow> string \<Rightarrow> jsnum" where
  "parse_prefix sign s =
     (if take 2 s = ''0x'' \<or> take 2 s = ''0X'' then parse_digits 16 sign (drop 2 s)
      else parse_digits 10 sign s)"

definition parseInt :: "string \<Rightarrow> jsnum" where
  "parseInt str =
     (case dropWhile is_js_space str of
        [] \<Rightarrow> NaN
      | c # rest \<Rightarrow>
          if c = CHR ''-'' then parse_prefix (-1) rest
          else if c = CHR ''+'' then parse_prefix 1 rest
          else parse_prefix 1 (c # rest))"


subsection \<open>\<open>Buffer.from(string, 'hex')\<close>\<close>

text \<open>Pairs of hexadecimal digits are decoded until the first pair that is not one.\<close>

type_synonym bytes = "nat list"

definition hex_value :: "char \<Rightarrow> nat option" where
  "hex_value c = (case digit_value c of None \<Rightarrow> None | Some d \<Rightarrow> if d < 16 then Some d else None)"

fun Buffer_from_hex :: "string \<Rightarrow> bytes" where
  "Buffer_from_hex (a # b # rest) =
     (case (hex_value a, hex_value b) of
        (Some x, Some y) \<Rightarrow> (16 * x + y) # Buffer_from_hex rest
      | _ \<Rightarrow> [])"
| "Buffer_from_hex _ = []"

section \<open>Collaborators\<close>

text \<open>A thrown value; \<open>status_code\<close> is the field the balance lookup inspects.\<close>

datatype error = Error (status_code: "nat option")

subsection \<open>The key, address and transaction library\<close>

text \<open>
  The mnemonic codec (bip39) and the serialization library (CardanoWasm) are not part of
  the repository. Their objects are opaque values and their operations are the fields of
  \<open>lib\<close>, a parameter of every function below; an operation that can throw returns a sum.
  \<open>generateMnemonic lib bits k\<close> is the phrase the \<open>k\<close>-th draw of the random source
  produces.
\<close>

datatype bip32_private_key = Bip32PrivateKey bytes
datatype bip32_public_key = Bip32PublicKey bytes
datatype private_key = PrivateKey bytes
datatype public_key = PublicKey bytes
datatype key_hash = Ed25519KeyHash bytes
datatype stake_credential = StakeCredential_from_keyhash key_hash
datatype address_obj = Address bytes
datatype transaction_hash = TransactionHash bytes
datatype vkeywitness = Vkeywitness bytes

record base_address =
  network_id :: nat
  payment_cred :: stake_credential
  stake_cred :: stake_credential

definition NetworkInfo_testnet_network_id :: nat where
  "NetworkInfo_testnet_network_id = 0"

definition NetworkInfo_mainnet_network_id :: nat where
  "NetworkInfo_mainnet_network_id = 1"

datatype transaction_input = TransactionInput transaction_hash nat
datatype transaction_output = TransactionOutput address_obj nat

text \<open>
  \<open>ttl\<close> is the value the body holds: \<open>TransactionBody.new\<close> takes the number passed
  as an unsigned 32-bit integer, that is, modulo \<open>2^32\<close>.
\<close>

record transaction_body =
  inputs :: "transaction_input list"
  outputs :: "transaction_output list"
  fee :: nat
  ttl :: int

record transaction_witness_set =
  vkeys :: "vkeywitness list option"

record transaction =
  body :: transaction_body
  witness_set :: transaction_witness_set
  auxiliary_data :: "bytes option"

text \<open>
  A wallet record as it is stored, and what \<open>JSON.parse\<close> makes of the wallet file: a
  falsy value (\<open>null\<close>, \<open>false\<close>, \<open>0\<close>, \<open>""\<close>) or the array of wallet records; other shapes
  of JSON are not modelled.
\<close>

record wallet_info =
  mnemonic :: string
  address :: string
  type :: string

record wallet = wallet_info +
  name :: string

type_synonym stored_wallet = wallet

datatype parsed = Parsed_falsy | Parsed_wallets "wallet list"

record lib =
  generateMnemonic :: "nat \<Rightarrow> nat \<Rightarrow> string"
  mnemonicToEntropy :: "string \<Rightarrow> error + string"
  from_bip39_entropy :: "bytes \<Rightarrow> bytes \<Rightarrow> bip32_private_key"
  derive :: "bip32_private_key \<Rightarrow> nat \<Rightarrow> bip32_private_key"
  to_public :: "bip32_private_key \<Rightarrow> bip32_public_key"
  to_raw_key :: "bip32_private_key \<Rightarrow> private_key"
  public_to_raw_key :: "bip32_public_key \<Rightarrow> public_key"
  public_key_hash :: "public_key \<Rightarrow> key_hash"
  to_address :: "base_address \<Rightarrow> address_obj"
  to_bech32 :: "address_obj \<Rightarrow> string"
  from_bech32 :: "string \<Rightarrow> error + address_obj"
  TransactionHash_from_bytes :: "bytes \<Rightarrow> error + transaction_hash"
  hash_transaction :: "transaction_body \<Rightarrow> transaction_hash"
  make_vkey_witness :: "transaction_hash \<Rightarrow> private_key \<Rightarrow> vkeywitness"
  to_bytes :: "transaction \<Rightarrow> bytes"
  JSON_stringify :: "stored_wallet list \<Rightarrow> string"
  JSON_parse :: "string \<Rightarrow> error + parsed"

text \<open>
  \<open>BigNum.from_str(n.toString())\<close>: a \<open>BigNum\<close> is an unsigned 64-bit integer read from
  plain decimal digits, so a negative number (printed with a sign) and \<open>NaN\<close> are refused.
  A number up to \<open>MAX_SAFE_INTEGER\<close> prints as its exact digits; above it \<open>toString\<close>
  prints the shortest digits of the double, which the model does not.
\<close>

definition BigNum_from_number :: "jsnum \<Rightarrow> error + nat" where
  "BigNum_from_number x =
     (case x of
        NaN \<Rightarrow> Inl (Error None)
      | Num n \<Rightarrow> if 0 \<le> n \<and> n < 2 ^ 64 then Inr (nat n) else Inl (Error None))"

subsection \<open>The Blockfrost API\<close>

text \<open>
  Each query is a function from the request to the response or the thrown error, fixed
  for the duration of one run. \<open>projectId\<close> is the configured credential and \<open>network\<close>
  the configured network selector. The calls made are recorded in order as \<open>api_call\<close>s.
\<close>

record amount_entry =
  unit :: string
  quantity :: string

record address_info =
  amount :: "amount_entry list"

record utxo = address_info +
  tx_hash :: string
  output_index :: nat

record block =
  slot :: "int option"
  epoch :: int

record blockfrost =
  projectId :: string
  network :: string
  addresses :: "string \<Rightarrow> error + address_info"
  addressesUtxos :: "string \<Rightarrow> error + utxo list option"
  blocksLatest :: "error + block"
  epochsParameters :: "int \<Rightarrow> error + unit"
  txSubmit :: "bytes \<Rightarrow> error + string"

datatype api_call =
    Call_addresses string
  | Call_addressesUtxos string
  | Call_blocksLatest
  | Call_epochsParameters int
  | Call_txSubmit bytes

section \<open>Wallet creation\<close>

text \<open>
  The account key at path \<open>m/1852'/1815'/0'\<close> of the root key of an entropy, with the
  empty password.
\<close>

definition hardened :: "nat \<Rightarrow> nat" where
  "hardened i = i + 0x80000000"

definition account_key_of_entropy :: "lib \<Rightarrow> string \<Rightarrow> bip32_private_key" where
  "account_key_of_entropy l seed =
     (let rootKey = from_bip39_entropy l (Buffer_from_hex seed) []
      in derive l (derive l (derive l rootKey (hardened 1852)) (hardened 1815)) (hardened 0))"

text \<open>
  The base address \<open>createTestnetWallet\<close> builds from the account key: the stake key
  at role 2, index 0, the spending key at role 0, index 0, and the network id of
  \<open>NetworkInfo.testnet()\<close>.
\<close>

definition testnet_base_address :: "lib \<Rightarrow> bip32_private_key \<Rightarrow> base_address" where
  "testnet_base_address l accountKey =
     (let stakeKey = to_public l (derive l (derive l accountKey 2) 0);
          spendingKey = to_public l (derive l (derive l accountKey 0) 0)
      in \<lparr> network_id = NetworkInfo_testnet_network_id,
           payment_cred = StakeCredential_from_keyhash
             (public_key_hash l (public_to_raw_key l spendingKey)),
           stake_cred = StakeCredential_from_keyhash
             (public_key_hash l (public_to_raw_key l stakeKey)) \<rparr>)"

text \<open>
  \<open>createTestnetWallet(mnemonic = null)\<close>. The argument is \<open>None\<close> for \<open>null\<close>; the empty
  string is falsy as well. The module's configuration (the \<open>blockfrost\<close> value, with the
  network selector) is in scope and is a parameter, as is the number of draws taken from
  the random source so far; the second component of the result is that number after the
  call. An error of the library is rethrown.
\<close>

definition createTestnetWallet ::
  "lib \<Rightarrow> blockfrost \<Rightarrow> nat \<Rightarrow> string option \<Rightarrow> (error + wallet_info) \<times> nat" where
  "createTestnetWallet l b rng mnemonic0 =
     (let (mnemonic1, rng1) =
            (case mnemonic0 of
               None \<Rightarrow> (generateMnemonic l 256 rng, Suc rng)
             | Some m \<Rightarrow> if m = [] then (generateMnemonic l 256 rng, Suc rng) else (m, rng))
      in case mnemonicToEntropy l mnemonic1 of
           Inl e \<Rightarrow> (Inl e, rng1)
         | Inr seed \<Rightarrow>
             let baseAddr = testnet_base_address l (account_key_of_entropy l seed)
             in (Inr \<lparr> mnemonic = mnemonic1,
                        address = to_bech32 l (to_address l baseAddr),
                        type = ''Testnet Address'' \<rparr>, rng1))"

text \<open>\<open>getPrivateKeyFromMnemonic(mnemonic)\<close>: the account key; an error is rethrown.\<close>

definition getPrivateKeyFromMnemonic :: "lib \<Rightarrow> string \<Rightarrow> error + bip32_private_key" where
  "getPrivateKeyFromMnemonic l m =
     (case mnemonicToEntropy l m of
        Inl e \<Rightarrow> Inl e
      | Inr seed \<Rightarrow> Inr (account_key_of_entropy l seed))"

section \<open>Balance lookup\<close>

text \<open>
  An ADA amount is the lovelace number divided by 1,000,000. The source prints it with
  \<open>toFixed(6)\<close> and reads it back with \<open>parseFloat\<close>; the model keeps the exact
  rational, or \<open>Ada_NaN\<close>. The source holds the nearest double. For lovelace numbers
  from zero to \<open>2^52\<close> the doubles are spaced less than one millionth apart, so the
  six-decimal string is the exact quotient and distinct balances stay distinct and in
  order; above that they can collapse, so the properties that compare balances assume
  \<open>balance_in_range\<close>.
\<close>

datatype ada_amount = Ada_NaN | Ada rat

definition ada_of_lovelace :: "jsnum \<Rightarrow> ada_amount" where
  "ada_of_lovelace x = (case x of NaN \<Rightarrow> Ada_NaN | Num n \<Rightarrow> Ada (of_int n / 1000000))"

fun ada_gt :: "ada_amount \<Rightarrow> ada_amount \<Rightarrow> bool" where
  "ada_gt (Ada a) (Ada b) = (a > b)"
| "ada_gt _ _ = False"

record balance =
  ada :: ada_amount
  lovelace :: string


definition zero_balance :: balance where
  "zero_balance = \<lparr> ada = Ada 0, lovelace = ''0'' \<rparr>"

text \<open>\<open>amount.find(a => a.unit === 'lovelace')?.quantity || '0'\<close>\<close>

definition lovelace_of :: "amount_entry list \<Rightarrow> string" where
  "lovelace_of am =
     (case find (\<lambda>a. unit a = ''lovelace'') am of
        None \<Rightarrow> ''0''
      | Some a \<Rightarrow> if quantity a = [] then ''0'' else quantity a)"

text \<open>
  \<open>fetchBalance(address)\<close>. The inner \<open>try\<close> rethrows every error but a 404; the outer
  \<open>catch\<close> receives it. The result is the returned balance or the error thrown to the
  caller, with the calls made.
\<close>

definition fetchBalance_inner :: "blockfrost \<Rightarrow> string \<Rightarrow> (error + balance) \<times> api_call list" where
  "fetchBalance_inner b addr =
     (if projectId b = [] then (Inr zero_balance, [])
      else (case addresses b addr of
              Inr addressInfo \<Rightarrow>
                let lovelace = lovelace_of (amount addressInfo)
                in Inr \<lparr> ada = ada_of_lovelace (parseInt lovelace), lovelace = lovelace \<rparr>
            | Inl e \<Rightarrow> if status_code e = Some 404 then Inr zero_balance else Inl e,
            [Call_addresses addr]))"

definition fetchBalance :: "blockfrost \<Rightarrow> string \<Rightarrow> (error + balance) \<times> api_call list" where
  "fetchBalance b addr =
     (case fetchBalance_inner b addr of
        (Inl e, cs) \<Rightarrow> (Inr zero_balance, cs)
      | (Inr bal, cs) \<Rightarrow> (Inr bal, cs))"


section \<open>Sending ADA\<close>

text \<open>The transaction input of a listed UTXO; \<open>TransactionHash.from_bytes\<close> may throw.\<close>

definition utxo_input :: "lib \<Rightarrow> utxo \<Rightarrow> error + transaction_input" where
  "utxo_input l u =
     (case TransactionHash_from_bytes l (Buffer_from_hex (tx_hash u)) of
        Inl e \<Rightarrow> Inl e
      | Inr h \<Rightarrow> Inr (TransactionInput h (output_index u)))"

definition utxo_lovelace :: "utxo \<Rightarrow> jsnum" where
  "utxo_lovelace u = parseInt (lovelace_of (amount u))"

text \<open>
  The selection loop of \<open>sendAda\<close>: each UTXO is added to \<open>txInputs\<close> and its lovelace to
  \<open>totalInputAmount\<close>; the loop breaks once the total is at least the threshold.
\<close>

fun select_inputs ::
  "lib \<Rightarrow> jsnum \<Rightarrow> utxo list \<Rightarrow> transaction_input list \<Rightarrow> jsnum
     \<Rightarrow> error + (transaction_input list \<times> jsnum)" where
  "select_inputs l threshold [] txInputs totalInputAmount = Inr (txInputs, totalInputAmount)"
| "select_inputs l threshold (u # rest) txInputs totalInputAmount =
     (case utxo_input l u of
        Inl e \<Rightarrow> Inl e
      | Inr txInput \<Rightarrow>
          let txInputs' = txInputs @ [txInput];
              total' = js_add totalInputAmount (utxo_lovelace u)
          in if js_ge total' threshold then Inr (txInputs', total')
             else select_inputs l threshold rest txInputs' total')"





text \<open>The outputs: the payment, and the change when it is positive.\<close>

definition build_outputs ::
  "lib \<Rightarrow> string \<Rightarrow> string \<Rightarrow> jsnum \<Rightarrow> jsnum \<Rightarrow> jsnum \<Rightarrow> error + transaction_output list" where
  "build_outputs l senderAddr receiverAddress amountLovelace feeBuffer totalInputAmount =
     (case from_bech32 l receiverAddress of
        Inl e \<Rightarrow> Inl e
      | Inr recipientAddress \<Rightarrow>
     (case BigNum_from_number amountLovelace of
        Inl e \<Rightarrow> Inl e
      | Inr amountCoin \<Rightarrow>
          let txOutputs = [TransactionOutput recipientAddress amountCoin];
              changeAmount = js_sub (js_sub totalInputAmount amountLovelace) feeBuffer
          in if js_gt changeAmount (Num 0) then
               (case from_bech32 l senderAddr of
                  Inl e \<Rightarrow> Inl e
                | Inr senderAddress \<Rightarrow>
               (case BigNum_from_number changeAmount of
                  Inl e \<Rightarrow> Inl e
                | Inr changeCoin \<Rightarrow>
                    Inr (txOutputs @ [TransactionOutput senderAddress changeCoin])))
             else Inr txOutputs))"


text \<open>
  \<open>latestSlot + 10000\<close>, where the slot the API reports is a number or \<open>null\<close>, and
  \<open>null\<close> counts as zero in a sum.
\<close>

definition latestSlot_plus :: "int option \<Rightarrow> int \<Rightarrow> int" where
  "latestSlot_plus latestSlot n = (case latestSlot of None \<Rightarrow> n | Some s \<Rightarrow> s + n)"

datatype build_result =
    Build_no_utxos
  | Build_not_enough jsnum jsnum
  | Built transaction_body bip32_private_key

definition feeBuffer :: jsnum where
  "feeBuffer = Num 200000"

definition amountLovelace_of :: "rat \<Rightarrow> jsnum" where
  "amountLovelace_of amountAda = Num \<lfloor>amountAda * 1000000\<rfloor>"

definition sendAda_build ::
  "lib \<Rightarrow> blockfrost \<Rightarrow> 'a wallet_scheme \<Rightarrow> string \<Rightarrow> rat
     \<Rightarrow> (error + build_result) \<times> api_call list" where
  "sendAda_build l b senderWallet receiverAddress amountAda =
     (case getPrivateKeyFromMnemonic l (mnemonic senderWallet) of
        Inl e \<Rightarrow> (Inl e, [])
      | Inr accountKey \<Rightarrow>
     (let amountLovelace = amountLovelace_of amountAda;
          threshold = js_add amountLovelace feeBuffer;
          c1 = [Call_addressesUtxos (address senderWallet)]
      in case addressesUtxos b (address senderWallet) of
        Inl e \<Rightarrow> (Inl e, c1)
      | Inr None \<Rightarrow> (Inr Build_no_utxos, c1)
      | Inr (Some utxos) \<Rightarrow>
          if utxos = [] then (Inr Build_no_utxos, c1)
          else
     (case select_inputs l threshold utxos [] (Num 0) of
        Inl e \<Rightarrow> (Inl e, c1)
      | Inr (txInputs, totalInputAmount) \<Rightarrow>
          if js_lt totalInputAmount threshold
          then (Inr (Build_not_enough threshold totalInputAmount), c1)
          else
     (case build_outputs l (address senderWallet) receiverAddress amountLovelace feeBuffer
             totalInputAmount of
        Inl e \<Rightarrow> (Inl e, c1)
      | Inr txOutputs \<Rightarrow>
     (case blocksLatest b of
        Inl e \<Rightarrow> (Inl e, c1 @ [Call_blocksLatest])
      | Inr latestBlock \<Rightarrow>
     (let c3 = c1 @ [Call_blocksLatest, Call_epochsParameters (epoch latestBlock)]
      in case epochsParameters b (epoch latestBlock) of
        Inl e \<Rightarrow> (Inl e, c3)
      | Inr protocolParams \<Rightarrow>
     (case BigNum_from_number feeBuffer of
        Inl e \<Rightarrow> (Inl e, c3)
      | Inr feeCoin \<Rightarrow>
          (Inr (Built \<lparr> inputs = txInputs, outputs = txOutputs, fee = feeCoin,
                         ttl = (latestSlot_plus (slot latestBlock) 10000) mod 2 ^ 32 \<rparr>
                 accountKey), c3))))))))"

text \<open>The witness set and the signed transaction.\<close>

definition sendAda_sign :: "lib \<Rightarrow> transaction_body \<Rightarrow> bip32_private_key \<Rightarrow> transaction" where
  "sendAda_sign l txBody accountKey =
     (let txBodyHash = hash_transaction l txBody;
          spendingPrivateKey = derive l (derive l accountKey 0) 0;
          vkeyWitness = make_vkey_witness l txBodyHash (to_raw_key l spendingPrivateKey)
      in \<lparr> body = txBody,
           witness_set = \<lparr> vkeys = Some [vkeyWitness] \<rparr>,
           auxiliary_data = None \<rparr>)"

text \<open>
  \<open>sendAda(senderWallet, receiverAddress, amountAda)\<close>. The outcome names the exit taken;
  the source returns \<open>true\<close> for \<open>Submitted\<close> and \<open>false\<close> for the others (\<open>Send_error\<close> is
  the \<open>catch\<close>). Console output is not modelled.
\<close>

datatype send_outcome =
    No_utxos
  | Not_enough_funds
  | Send_error error
  | Submitted string

definition send_returns :: "send_outcome \<Rightarrow> bool" where
  "send_returns out = (case out of Submitted h \<Rightarrow> True | _ \<Rightarrow> False)"

definition sendAda ::
  "lib \<Rightarrow> blockfrost \<Rightarrow> 'a wallet_scheme \<Rightarrow> string \<Rightarrow> rat \<Rightarrow> send_outcome \<times> api_call list" where
  "sendAda l b senderWallet receiverAddress amountAda =
     (case sendAda_build l b senderWallet receiverAddress amountAda of
        (Inl e, cs) \<Rightarrow> (Send_error e, cs)
      | (Inr Build_no_utxos, cs) \<Rightarrow> (No_utxos, cs)
      | (Inr (Build_not_enough required available), cs) \<Rightarrow> (Not_enough_funds, cs)
      | (Inr (Built txBody accountKey), cs) \<Rightarrow>
          let txBytes = to_bytes l (sendAda_sign l txBody accountKey)
          in (case txSubmit b txBytes of
                Inl e \<Rightarrow> (Send_error e, cs @ [Call_txSubmit txBytes])
              | Inr submittedTxHash \<Rightarrow> (Submitted submittedTxHash, cs @ [Call_txSubmit txBytes])))"


section \<open>Balance check and transfer\<close>

record wallet_with_balance = wallet +
  balance :: balance

text \<open>The loop that fetches the balance of each wallet and pushes the extended record.\<close>

fun fetch_balances ::
  "blockfrost \<Rightarrow> wallet list \<Rightarrow> (error + wallet_with_balance list) \<times> api_call list" where
  "fetch_balances b [] = (Inr [], [])"
| "fetch_balances b (w # ws) =
     (case fetchBalance b (address w) of
        (Inl e, cs) \<Rightarrow> (Inl e, cs)
      | (Inr bal, cs) \<Rightarrow>
          (case fetch_balances b ws of
             (Inl e, cs') \<Rightarrow> (Inl e, cs @ cs')
           | (Inr rest, cs') \<Rightarrow>
               (Inr (\<lparr> mnemonic = mnemonic w, address = address w, type = type w,
                        name = name w,
                        balance = \<lparr> ada = ada bal, lovelace = lovelace bal \<rparr> \<rparr> # rest),
                cs @ cs')))"

text \<open>
  \<open>Array.prototype.sort\<close> with a comparator is a stable sort. \<open>after a b\<close> says that
  the comparator is positive on \<open>(a, b)\<close>, so that \<open>a\<close> belongs after \<open>b\<close>; a comparator
  value of \<open>NaN\<close> counts as zero. The model is the stable insertion sort, which is the
  result of every stable sort when the comparator is a consistent ordering. With a
  \<open>NaN\<close> balance the comparator is not one and the order \<open>Array.prototype.sort\<close> leaves is
  implementation-defined, so the properties about the sort assume balances that are
  numbers.
\<close>

fun insert_stable :: "('a \<Rightarrow> 'a \<Rightarrow> bool) \<Rightarrow> 'a \<Rightarrow> 'a list \<Rightarrow> 'a list" where
  "insert_stable after a [] = [a]"
| "insert_stable after a (x # xs) =
     (if after a x then x # insert_stable after a xs else a # x # xs)"

definition js_sort :: "('a \<Rightarrow> 'a \<Rightarrow> bool) \<Rightarrow> 'a list \<Rightarrow> 'a list" where
  "js_sort after xs = foldr (insert_stable after) xs []"

text \<open>The comparator \<open>(a, b) => b.balance.ada - a.balance.ada\<close> is positive.\<close>

definition by_balance_desc :: "wallet_with_balance \<Rightarrow> wallet_with_balance \<Rightarrow> bool" where
  "by_balance_desc a b = ada_gt (ada (balance b)) (ada (balance a))"

datatype transfer_outcome =
    Need_two_wallets
  | No_transfer_needed
  | Transfer send_outcome
  | Check_error error

definition transfer_returns :: "transfer_outcome \<Rightarrow> bool" where
  "transfer_returns out = (case out of Transfer s \<Rightarrow> send_returns s | _ \<Rightarrow> False)"

definition balanceCheckAndTransfer ::
  "lib \<Rightarrow> blockfrost \<Rightarrow> wallet list \<Rightarrow> transfer_outcome \<times> api_call list" where
  "balanceCheckAndTransfer l b wallets =
     (if length wallets < 2 then (Need_two_wallets, [])
      else
        (case fetch_balances b wallets of
           (Inl e, cs) \<Rightarrow> (Check_error e, cs)
         | (Inr walletsWithBalance, cs) \<Rightarrow>
             (case js_sort by_balance_desc walletsWithBalance of
                w0 # w1 # others \<Rightarrow>
                  if ada_gt (ada (balance w0)) (ada (balance w1)) then
                    (case sendAda l b w0 (address w1) 1 of
                       (success, cs') \<Rightarrow> (Transfer success, cs @ cs'))
                  else (No_transfer_needed, cs)
              | _ \<Rightarrow> (Check_error (Error None), cs))))"

section \<open>The wallet file and \<open>manageWallets\<close>\<close>

text \<open>
  The state a run can change: the contents of \<open>wallets.txt\<close> (\<open>None\<close> when the file does
  not exist) and the number of draws taken from the random source. \<open>fs_read_ok\<close> says
  whether \<open>readFileSync\<close> succeeds. \<open>fs_write_failure\<close> is \<open>None\<close> when \<open>writeFileSync\<close>
  succeeds; when it throws, it is \<open>Some f\<close> for the state \<open>f\<close> in which the failed write
  leaves the file (untouched, truncated or partly written).
\<close>

record world =
  wallet_file :: "string option"
  fs_read_ok :: bool
  fs_write_failure :: "string option option"
  rng :: nat

text \<open>\<open>saveWalletsToFile(wallets)\<close>: a failing write is caught and only logged.\<close>

definition saveWalletsToFile :: "lib \<Rightarrow> world \<Rightarrow> 'a wallet_scheme list \<Rightarrow> world" where
  "saveWalletsToFile l w wallets =
     (let walletsData =
            map (\<lambda>wallet. \<lparr> mnemonic = mnemonic wallet, address = address wallet,
                             type = type wallet, name = name wallet \<rparr>) wallets
      in case fs_write_failure w of
           None \<Rightarrow> w\<lparr> wallet_file := Some (JSON_stringify l walletsData) \<rparr>
         | Some left \<Rightarrow> w\<lparr> wallet_file := left \<rparr>)"

text \<open>
  \<open>loadWalletsFromFile()\<close>: \<open>null\<close> (falsy) when the file does not exist and when reading
  or parsing throws.
\<close>

definition loadWalletsFromFile :: "lib \<Rightarrow> world \<Rightarrow> parsed" where
  "loadWalletsFromFile l w =
     (case wallet_file w of
        None \<Rightarrow> Parsed_falsy
      | Some walletsData \<Rightarrow>
          if fs_read_ok w then
            (case JSON_parse l walletsData of
               Inl e \<Rightarrow> Parsed_falsy
             | Inr v \<Rightarrow> v)
          else Parsed_falsy)"

text \<open>The loop that prints the balance of each existing wallet.\<close>

fun show_balances :: "blockfrost \<Rightarrow> wallet list \<Rightarrow> error option \<times> api_call list" where
  "show_balances b [] = (None, [])"
| "show_balances b (w # ws) =
     (case fetchBalance b (address w) of
        (Inl e, cs) \<Rightarrow> (Some e, cs)
      | (Inr bal, cs) \<Rightarrow> (case show_balances b ws of (r, cs') \<Rightarrow> (r, cs @ cs')))"

text \<open>The two new wallets of the creating branch, made in order.\<close>

definition create_two_wallets ::
  "lib \<Rightarrow> blockfrost \<Rightarrow> nat \<Rightarrow> (error + wallet list) \<times> nat" where
  "create_two_wallets l b rng0 =
     (case createTestnetWallet l b rng0 None of
        (Inl e, rng1) \<Rightarrow> (Inl e, rng1)
      | (Inr i1, rng1) \<Rightarrow>
          (case createTestnetWallet l b rng1 None of
             (Inl e, rng2) \<Rightarrow> (Inl e, rng2)
           | (Inr i2, rng2) \<Rightarrow>
               (Inr [\<lparr> mnemonic = mnemonic i1, address = address i1, type = type i1,
                        name = ''Wallet 1'' \<rparr>,
                     \<lparr> mnemonic = mnemonic i2, address = address i2, type = type i2,
                        name = ''Wallet 2'' \<rparr>], rng2)))"

datatype manage_outcome =
    Displayed
  | Checked transfer_outcome
  | Created "wallet list"
  | Manage_error error

text \<open>
  \<open>manageWallets()\<close> of the version with the transfer, and of \<open>wallet_manager.js\<close>, which
  only displays the balances of existing wallets. \<open>Manage_error\<close> is an error that
  leaves the function.
\<close>

definition manageWallets ::
  "lib \<Rightarrow> blockfrost \<Rightarrow> world \<Rightarrow> manage_outcome \<times> world \<times> api_call list" where
  "manageWallets l b w =
     (case loadWalletsFromFile l w of
        Parsed_wallets existingWallets \<Rightarrow>
          (case show_balances b existingWallets of
             (Some e, cs) \<Rightarrow> (Manage_error e, w, cs)
           | (None, cs) \<Rightarrow>
               (case balanceCheckAndTransfer l b existingWallets of
                  (out, cs') \<Rightarrow> (Checked out, w, cs @ cs')))
      | Parsed_falsy \<Rightarrow>
          (case create_two_wallets l b (rng w) of
             (Inl e, rng') \<Rightarrow> (Manage_error e, w\<lparr> rng := rng' \<rparr>, [])
           | (Inr wallets, rng') \<Rightarrow>
               (Created wallets, saveWalletsToFile l (w\<lparr> rng := rng' \<rparr>) wallets, [])))"

definition manageWallets_wallet_manager_js ::
  "lib \<Rightarrow> blockfrost \<Rightarrow> world \<Rightarrow> manage_outcome \<times> world \<times> api_call list" where
  "manageWallets_wallet_manager_js l b w =
     (case loadWalletsFromFile l w of
        Parsed_wallets existingWallets \<Rightarrow>
          (case show_balances b existingWallets of
             (Some e, cs) \<Rightarrow> (Manage_error e, w, cs)
           | (None, cs) \<Rightarrow> (Displayed, w, cs))
      | Parsed_falsy \<Rightarrow>
          (case create_two_wallets l b (rng w) of
             (Inl e, rng') \<Rightarrow> (Manage_error e, w\<lparr> rng := rng' \<rparr>, [])
           | (Inr wallets, rng') \<Rightarrow>
               (Created wallets, saveWalletsToFile l (w\<lparr> rng := rng' \<rparr>) wallets, [])))"

section \<open>Concrete collaborators\<close>

text \<open>
  A small library and API on which the functions can be evaluated: keys are byte lists
  that record their derivation path, every non-empty phrase but \<open>''bad''\<close> is a valid
  mnemonic, the parser knows the empty array and \<open>null\<close>, and the API knows the addresses
  \<open>''rich''\<close> (10 ADA in three UTXOs), \<open>''poor''\<close> (3 ADA, one UTXO of 0.5 ADA listed)
  and \<open>''fresh''\<close> (not found); every other address query fails with status 500. The
  address \<open>''odd''\<close> lists a UTXO whose quantity is not a number.
\<close>

definition demo_lib :: lib where
  "demo_lib =
     \<lparr> generateMnemonic = (\<lambda>bits k. replicate (Suc k) (CHR ''m'')),
       mnemonicToEntropy = (\<lambda>m. if m = [] \<or> m = ''bad'' then Inl (Error None) else Inr ''0a''),
       from_bip39_entropy = (\<lambda>e pw. Bip32PrivateKey (e @ pw)),
       derive = (\<lambda>k i. case k of Bip32PrivateKey bs \<Rightarrow> Bip32PrivateKey (bs @ [i])),
       to_public = (\<lambda>k. case k of Bip32PrivateKey bs \<Rightarrow> Bip32PublicKey bs),
       to_raw_key = (\<lambda>k. case k of Bip32PrivateKey bs \<Rightarrow> PrivateKey bs),
       public_to_raw_key = (\<lambda>k. case k of Bip32PublicKey bs \<Rightarrow> PublicKey bs),
       public_key_hash = (\<lambda>k. case k of PublicKey bs \<Rightarrow> Ed25519KeyHash bs),
       to_address = (\<lambda>a. Address [network_id a]),
       to_bech32 = (\<lambda>a. ''addr_test1'' ),
       from_bech32 = (\<lambda>s. if s = [] then Inl (Error None) else Inr (Address (map of_char s))),
       TransactionHash_from_bytes =
         (\<lambda>bs. if bs = [] then Inl (Error None) else Inr (TransactionHash bs)),
       hash_transaction = (\<lambda>tb. TransactionHash [length (inputs tb), length (outputs tb)]),
       make_vkey_witness = (\<lambda>h k. Vkeywitness []),
       to_bytes = (\<lambda>t. [length (inputs (body t)), length (outputs (body t))]),
       JSON_stringify =
         (\<lambda>ws. concat (map (\<lambda>x. name x @ '','' @ address x @ '','' @ mnemonic x @ '','' @ type x
                                  @ '';'') ws)),
       JSON_parse = (\<lambda>s. if s = ''[]'' then Inr (Parsed_wallets [])
                         else if s = ''null'' then Inr Parsed_falsy
                         else Inl (Error None)) \<rparr>"

definition demo_utxo :: "string \<Rightarrow> nat \<Rightarrow> string \<Rightarrow> utxo" where
  "demo_utxo h i q =
     \<lparr> amount = [\<lparr> unit = ''lovelace'', quantity = q \<rparr>], tx_hash = h, output_index = i \<rparr>"

definition demo_utxos :: "utxo list" where
  "demo_utxos = [demo_utxo ''aa'' 0 ''700000'', demo_utxo ''bb'' 1 ''4300000'',
                 demo_utxo ''cc'' 0 ''5000000'']"

definition demo_odd_utxos :: "utxo list" where
  "demo_odd_utxos = [demo_utxo ''ee'' 0 ''abc'', demo_utxo ''ff'' 0 ''5000000'']"

definition demo_api :: blockfrost where
  "demo_api =
     \<lparr> projectId = ''key'',
       network = ''preprod'',
       addresses = (\<lambda>a. if a = ''rich'' then
                             Inr \<lparr> amount = [\<lparr> unit = ''lovelace'', quantity = ''10000000'' \<rparr>] \<rparr>
                          else if a = ''poor'' then
                             Inr \<lparr> amount = [\<lparr> unit = ''lovelace'', quantity = ''3000000'' \<rparr>] \<rparr>
                          else if a = ''fresh'' then Inl (Error (Some 404))
                          else Inl (Error (Some 500))),
       addressesUtxos = (\<lambda>a. if a = ''rich'' then
                                  Inr (Some demo_utxos)
                               else if a = ''poor'' then
                                  Inr (Some [demo_utxo ''dd'' 0 ''500000''])
                               else if a = ''odd'' then
                                  Inr (Some demo_odd_utxos)
                               else Inr (Some [])),
       blocksLatest = Inr \<lparr> slot = Some 70000000, epoch = 150 \<rparr>,
       epochsParameters = (\<lambda>e. Inr ()),
       txSubmit = (\<lambda>bs. Inr ''txid'') \<rparr>"

definition demo_wallet :: "string \<Rightarrow> string \<Rightarrow> wallet" where
  "demo_wallet n a = \<lparr> mnemonic = ''seed'', address = a, type = ''Testnet Address'', name = n \<rparr>"

text \<open>
  The transaction body \<open>sendAda\<close> builds for 1 ADA from \<open>''rich''\<close> to \<open>''poor''\<close>, and the
  account key of the phrase \<open>''seed''\<close>.
\<close>

definition demo_body :: transaction_body where
  "demo_body =
     \<lparr> inputs = [TransactionInput (TransactionHash [170]) 0,
                 TransactionInput (TransactionHash [187]) 1],
       outputs = [TransactionOutput (Address [112, 111, 111, 114]) 1000000,
                  TransactionOutput (Address [114, 105, 99, 104]) 3800000],
       fee = 200000, ttl = 70010000 \<rparr>"


definition demo_account_key :: bip32_private_key where
  "demo_account_key = Bip32PrivateKey [10, 2147485500, 2147485463, 2147483648]"


definition demo_world :: "string option \<Rightarrow> world" where
  "demo_world f = \<lparr> wallet_file = f, fs_read_ok = True, fs_write_failure = None, rng = 0 \<rparr>"


section \<open>Properties\<close>

lemmas demo_defs = demo_lib_def demo_api_def demo_wallet_def demo_utxo_def demo_utxos_def
  demo_odd_utxos_def

lemmas parse_defs = parseInt_def parse_prefix_def parse_digits_def is_radix_digit_def
  digit_value_def radix_value_def is_js_space_def lovelace_of_def utxo_lovelace_def
  hex_value_def

subsection \<open>Auxiliary facts about \<open>sendAda\<close>\<close>

text \<open>What a built transaction body tells about the run that built it.\<close>

lemma sendAda_build_Built:
  assumes "sendAda_build l b w r amt = (Inr (Built txBody k), cs)"
  shows "\<exists>utxos total blk.
           getPrivateKeyFromMnemonic l (mnemonic w) = Inr k
         \<and> addressesUtxos b (address w) = Inr (Some utxos) \<and> utxos \<noteq> []
         \<and> select_inputs l (js_add (amountLovelace_of amt) feeBuffer) utxos [] (Num 0)
             = Inr (inputs txBody, total)
         \<and> \<not> js_lt total (js_add (amountLovelace_of amt) feeBuffer)
         \<and> build_outputs l (address w) r (amountLovelace_of amt) feeBuffer total
             = Inr (outputs txBody)
         \<and> blocksLatest b = Inr blk
         \<and> fee txBody = 200000
         \<and> ttl txBody = latestSlot_plus (slot blk) 10000 mod 2 ^ 32
         \<and> cs = [Call_addressesUtxos (address w), Call_blocksLatest,
                  Call_epochsParameters (epoch blk)]"
  using assms
  by (auto simp: sendAda_build_def Let_def feeBuffer_def BigNum_from_number_def
           split: sum.splits option.splits if_splits prod.splits)








lemma sendAda_build_no_submit:
  "sendAda_build l b w r amt = (res, cs) \<Longrightarrow> Call_txSubmit bs \<notin> set cs"
  by (auto simp: sendAda_build_def Let_def
           split: sum.splits option.splits if_splits prod.splits)

text \<open>The run that sends 1 ADA from \<open>''rich''\<close> to \<open>''poor''\<close>.\<close>

lemma demo_build:
  "sendAda_build demo_lib demo_api (demo_wallet ''Wallet 1'' ''rich'') ''poor'' 1 =
     (Inr (Built demo_body demo_account_key),
      [Call_addressesUtxos ''rich'', Call_blocksLatest, Call_epochsParameters 150])"
  by (simp add: sendAda_build_def demo_defs parse_defs getPrivateKeyFromMnemonic_def
        account_key_of_entropy_def hardened_def amountLovelace_of_def feeBuffer_def
        utxo_input_def build_outputs_def BigNum_from_number_def latestSlot_plus_def Let_def
        demo_body_def demo_account_key_def)








lemma demo_send:
  "mnemonic w = ''seed'' \<Longrightarrow> address w = ''rich'' \<Longrightarrow>
   sendAda demo_lib demo_api w ''poor'' 1 =
     (Submitted ''txid'',
      [Call_addressesUtxos ''rich'', Call_blocksLatest, Call_epochsParameters 150,
       Call_txSubmit [2, 2]])"
  by (simp add: sendAda_def sendAda_sign_def sendAda_build_def demo_defs parse_defs
        getPrivateKeyFromMnemonic_def account_key_of_entropy_def hardened_def
        amountLovelace_of_def feeBuffer_def utxo_input_def build_outputs_def
        BigNum_from_number_def latestSlot_plus_def Let_def)

subsection \<open>Auxiliary facts about balances, sorting and wallet creation\<close>







lemma create_two_wallets_ok:
  assumes "mnemonicToEntropy l (generateMnemonic l 256 n) = Inr e1"
      and "mnemonicToEntropy l (generateMnemonic l 256 (Suc n)) = Inr e2"
  shows "create_two_wallets l b n =
     (Inr [\<lparr> mnemonic = generateMnemonic l 256 n,
              address = to_bech32 l (to_address l
                          (testnet_base_address l (account_key_of_entropy l e1))),
              type = ''Testnet Address'', name = ''Wallet 1'' \<rparr>,
           \<lparr> mnemonic = generateMnemonic l 256 (Suc n),
              address = to_bech32 l (to_address l
                          (testnet_base_address l (account_key_of_entropy l e2))),
              type = ''Testnet Address'', name = ''Wallet 2'' \<rparr>], Suc (Suc n))"
  using assms by (simp add: create_two_wallets_def createTestnetWallet_def Let_def)

subsection \<open>Transaction construction\<close>










subsection \<open>Wallet derivation\<close>

text \<open>
  C4. Derivation is deterministic: for a valid (hence non-empty) mnemonic \<open>M\<close>, two calls
  of \<open>createTestnetWallet(M)\<close>, in any two states of the random source and under any two
  configurations, both return a wallet, take no draw from the random source, and give
  the same address string. That address is the encoding of the base address derived
  from the account key that \<open>getPrivateKeyFromMnemonic(M)\<close> returns. The operations of
  the library are functions of their arguments in this model.
\<close>

theorem createTestnetWallet_deterministic:
  assumes "mnemonicToEntropy l M = Inr e" and "M \<noteq> []"
  shows "\<exists>w1 w2. createTestnetWallet l b n (Some M) = (Inr w1, n)
            \<and> createTestnetWallet l b' n' (Some M) = (Inr w2, n')
            \<and> address w1 = address w2
            \<and> getPrivateKeyFromMnemonic l M = Inr (account_key_of_entropy l e)
            \<and> address w1 = to_bech32 l (to_address l
                 (testnet_base_address l (account_key_of_entropy l e)))"
  using assms by (simp add: createTestnetWallet_def getPrivateKeyFromMnemonic_def Let_def)

theorem createTestnetWallet_deterministic_witness:
  "mnemonicToEntropy demo_lib ''seed'' = Inr ''0a'' \<and> ''seed'' \<noteq> [] \<and>
   (\<exists>w1 w2. createTestnetWallet demo_lib demo_api 0 (Some ''seed'') = (Inr w1, 0)
        \<and> createTestnetWallet demo_lib (demo_api\<lparr> network := ''mainnet'' \<rparr>) 7 (Some ''seed'')
            = (Inr w2, 7)
        \<and> address w1 = address w2
        \<and> getPrivateKeyFromMnemonic demo_lib ''seed'' = Inr (account_key_of_entropy demo_lib ''0a'')
        \<and> address w1 = to_bech32 demo_lib (to_address demo_lib
             (testnet_base_address demo_lib (account_key_of_entropy demo_lib ''0a''))))"
proof -
  have h: "mnemonicToEntropy demo_lib ''seed'' = Inr ''0a''"
    by (simp add: demo_lib_def)
  have ne: "''seed'' \<noteq> []" by simp
  from createTestnetWallet_deterministic [OF h ne, of demo_api 0 "demo_api\<lparr> network := ''mainnet'' \<rparr>" 7]
  show ?thesis using h ne by blast
qed

subsection \<open>Signing and validity\<close>

text \<open>
  C5. Whenever \<open>sendAda\<close> makes a submit call, the bytes submitted are the serialization
  of the signed transaction of a body it built; the call is the last one; the
  transaction has exactly one vkey witness, made from the hash of the body alone and the
  raw key at role 0, index 0 under the sender's account key; and it carries no
  auxiliary data (metadata).
\<close>

theorem sendAda_single_vkey:
  assumes "sendAda l b w r amt = (out, cs)" and "Call_txSubmit bs \<in> set cs"
  shows "\<exists>txBody k cs0 tx.
           sendAda_build l b w r amt = (Inr (Built txBody k), cs0)
         \<and> getPrivateKeyFromMnemonic l (mnemonic w) = Inr k
         \<and> tx = sendAda_sign l txBody k
         \<and> cs = cs0 @ [Call_txSubmit bs] \<and> bs = to_bytes l tx
         \<and> body tx = txBody
         \<and> vkeys (witness_set tx) =
             Some [make_vkey_witness l (hash_transaction l (body tx))
                     (to_raw_key l (derive l (derive l k 0) 0))]
         \<and> auxiliary_data tx = None"
proof -
  obtain res cs0 where bld: "sendAda_build l b w r amt = (res, cs0)"
    by (cases "sendAda_build l b w r amt")
  from sendAda_build_no_submit [OF bld] have ns: "Call_txSubmit bs \<notin> set cs0" .
  from assms bld ns obtain txBody k where
    res: "res = Inr (Built txBody k)" and cs: "cs = cs0 @ [Call_txSubmit (to_bytes l (sendAda_sign l txBody k))]"
    by (auto simp: sendAda_def Let_def split: sum.splits build_result.splits)
  from assms(2) cs ns have bs: "bs = to_bytes l (sendAda_sign l txBody k)" by auto
  from bld res have built: "sendAda_build l b w r amt = (Inr (Built txBody k), cs0)" by simp
  from sendAda_build_Built [OF built] have key: "getPrivateKeyFromMnemonic l (mnemonic w) = Inr k"
    by auto
  from built key cs bs show ?thesis
    by (auto simp: sendAda_sign_def Let_def)
qed

theorem sendAda_single_vkey_witness:
  "sendAda demo_lib demo_api (demo_wallet ''Wallet 1'' ''rich'') ''poor'' 1 =
     (Submitted ''txid'',
      [Call_addressesUtxos ''rich'', Call_blocksLatest, Call_epochsParameters 150,
       Call_txSubmit [2, 2]])
   \<and> Call_txSubmit [2, 2] \<in> set [Call_addressesUtxos ''rich'', Call_blocksLatest,
         Call_epochsParameters 150, Call_txSubmit [2, 2]]
   \<and> (\<exists>txBody k cs0 tx.
           sendAda_build demo_lib demo_api (demo_wallet ''Wallet 1'' ''rich'') ''poor'' 1
             = (Inr (Built txBody k), cs0)
         \<and> getPrivateKeyFromMnemonic demo_lib (mnemonic (demo_wallet ''Wallet 1'' ''rich''))
             = Inr k
         \<and> tx = sendAda_sign demo_lib txBody k
         \<and> [Call_addressesUtxos ''rich'', Call_blocksLatest, Call_epochsParameters 150,
             Call_txSubmit [2, 2]] = cs0 @ [Call_txSubmit [2, 2]]
         \<and> [2, 2] = to_bytes demo_lib tx
         \<and> body tx = txBody
         \<and> vkeys (witness_set tx) =
             Some [make_vkey_witness demo_lib (hash_transaction demo_lib (body tx))
                     (to_raw_key demo_lib (derive demo_lib (derive demo_lib k 0) 0))]
         \<and> auxiliary_data tx = None)"
proof -
  have s: "sendAda demo_lib demo_api (demo_wallet ''Wallet 1'' ''rich'') ''poor'' 1 =
     (Submitted ''txid'',
      [Call_addressesUtxos ''rich'', Call_blocksLatest, Call_epochsParameters 150,
       Call_txSubmit [2, 2]])"
    by (rule demo_send) (simp_all add: demo_wallet_def)
  have m: "Call_txSubmit [2, 2] \<in> set [Call_addressesUtxos ''rich'', Call_blocksLatest,
         Call_epochsParameters 150, Call_txSubmit [2, 2]]" by simp
  note c = sendAda_single_vkey [OF s m]
  show ?thesis
    apply (intro conjI)
      apply (rule s)
     apply (rule m)
    apply (rule c)
    done
qed

text \<open>
  C6. When the latest block fetched in this run reports the slot \<open>s\<close>, with \<open>s\<close> not
  negative and \<open>s + 10000\<close> below \<open>2^32\<close>, the TTL of the transaction body built is
  \<open>s + 10000\<close>.
\<close>

theorem sendAda_ttl:
  assumes built: "sendAda_build l b w r amt = (Inr (Built txBody k), cs)"
      and latest: "blocksLatest b = Inr blk"
      and slot: "slot blk = Some s"
      and range: "0 \<le> s \<and> s + 10000 < 2 ^ 32"
  shows "ttl txBody = s + 10000 \<and> Call_blocksLatest \<in> set cs"
  using sendAda_build_Built [OF built] latest slot range
  by (auto simp: latestSlot_plus_def)

theorem sendAda_ttl_witness:
  "sendAda_build demo_lib demo_api (demo_wallet ''Wallet 1'' ''rich'') ''poor'' 1 =
     (Inr (Built demo_body demo_account_key),
      [Call_addressesUtxos ''rich'', Call_blocksLatest, Call_epochsParameters 150])
   \<and> blocksLatest demo_api = Inr \<lparr> slot = Some 70000000, epoch = 150 \<rparr>
   \<and> slot \<lparr> slot = Some 70000000, epoch = 150 \<rparr> = Some 70000000
   \<and> (0::int) \<le> 70000000 \<and> (70000000::int) + 10000 < 2 ^ 32
   \<and> ttl demo_body = 70000000 + 10000"
proof -
  have latest: "blocksLatest demo_api = Inr \<lparr> slot = Some 70000000, epoch = 150 \<rparr>"
    by (simp add: demo_api_def)
  have slot: "slot \<lparr> slot = Some 70000000, epoch = 150 \<rparr> = Some 70000000" by simp
  have range: "(0::int) \<le> 70000000 \<and> (70000000::int) + 10000 < 2 ^ 32" by simp
  note t = sendAda_ttl [OF demo_build latest slot range, THEN conjunct1]
  show ?thesis
    apply (intro conjI)
         apply (rule demo_build)
        apply (rule latest)
       apply (rule slot)
      apply (rule range [THEN conjunct1])
     apply (rule range [THEN conjunct2])
    apply (rule t)
    done
qed

subsection \<open>Balance lookup\<close>

text \<open>
  C7, as the code has it. \<open>fetchBalance\<close> never throws to its caller. Without a
  credential it returns the zero balance and makes no call. Otherwise it makes one
  address query and returns the zero balance on every error of that query, a 404 or
  any other; on a response it returns the listed lovelace quantity (\<open>'0'\<close> when none is
  listed) and its ADA amount.
\<close>

theorem fetchBalance_never_throws:
  "fetchBalance b addr =
     (if projectId b = [] then (Inr zero_balance, [])
      else (case addresses b addr of
              Inl e \<Rightarrow> Inr zero_balance
            | Inr addressInfo \<Rightarrow>
                Inr \<lparr> ada = ada_of_lovelace (parseInt (lovelace_of (amount addressInfo))),
                      lovelace = lovelace_of (amount addressInfo) \<rparr>,
            [Call_addresses addr]))"
  by (simp add: fetchBalance_def fetchBalance_inner_def Let_def split: sum.splits)

text \<open>
  The claim that a failure other than a 404 propagates fails: with a credential set and
  the query failing with status 500, \<open>fetchBalance\<close> returns the zero balance.
\<close>

theorem fetchBalance_swallows_error:
  "projectId demo_api \<noteq> [] \<and> addresses demo_api ''down'' = Inl (Error (Some 500))
   \<and> fetchBalance demo_api ''down'' = (Inr zero_balance, [Call_addresses ''down''])"
  by (simp add: fetchBalance_def fetchBalance_inner_def demo_api_def)

subsection \<open>Balance check and transfer\<close>



subsection \<open>Managing the wallet file\<close>

text \<open>
  C9, as the code has it, for both versions of \<open>manageWallets\<close>. Loading yields nothing
  exactly when the file is absent, cannot be read, does not parse, or parses to a falsy
  value. In each of these cases, when the library accepts the two freshly generated
  256-bit mnemonics, exactly two wallets are created, from two successive draws of the
  random source, named \<open>Wallet 1\<close> and \<open>Wallet 2\<close>, and a write that succeeds leaves
  exactly these two records in the file. When the file is present, readable and parses
  to wallet records, loading yields them, no draw is taken and the file is not written.
\<close>

theorem manageWallets_creates_or_keeps:
  "(loadWalletsFromFile l w = Parsed_falsy \<longleftrightarrow>
      (wallet_file w = None \<or> \<not> fs_read_ok w
        \<or> (\<exists>c. wallet_file w = Some c
               \<and> ((\<exists>e. JSON_parse l c = Inl e) \<or> JSON_parse l c = Inr Parsed_falsy))))
   \<and> (\<forall>e1 e2.
      (wallet_file w = None \<or> \<not> fs_read_ok w
        \<or> (\<exists>c. wallet_file w = Some c
               \<and> ((\<exists>e. JSON_parse l c = Inl e) \<or> JSON_parse l c = Inr Parsed_falsy)))
      \<and> mnemonicToEntropy l (generateMnemonic l 256 (rng w)) = Inr e1
      \<and> mnemonicToEntropy l (generateMnemonic l 256 (Suc (rng w))) = Inr e2 \<longrightarrow>
      (let created =
             [\<lparr> mnemonic = generateMnemonic l 256 (rng w),
                 address = to_bech32 l (to_address l
                             (testnet_base_address l (account_key_of_entropy l e1))),
                 type = ''Testnet Address'', name = ''Wallet 1'' \<rparr>,
              \<lparr> mnemonic = generateMnemonic l 256 (Suc (rng w)),
                 address = to_bech32 l (to_address l
                             (testnet_base_address l (account_key_of_entropy l e2))),
                 type = ''Testnet Address'', name = ''Wallet 2'' \<rparr>];
           w' = w\<lparr> rng := Suc (Suc (rng w)),
                   wallet_file := (case fs_write_failure w of
                                     None \<Rightarrow> Some (JSON_stringify l created)
                                   | Some left \<Rightarrow> left) \<rparr>
       in manageWallets l b w = (Created created, w', [])
        \<and> manageWallets_wallet_manager_js l b w = (Created created, w', [])))
   \<and> (\<forall>c existing. wallet_file w = Some c \<and> fs_read_ok w
         \<and> JSON_parse l c = Inr (Parsed_wallets existing) \<longrightarrow>
         loadWalletsFromFile l w = Parsed_wallets existing
       \<and> fst (snd (manageWallets l b w)) = w
       \<and> fst (snd (manageWallets_wallet_manager_js l b w)) = w)"
proof -
  have i: "loadWalletsFromFile l w = Parsed_falsy \<longleftrightarrow>
      (wallet_file w = None \<or> \<not> fs_read_ok w
        \<or> (\<exists>c. wallet_file w = Some c
               \<and> ((\<exists>e. JSON_parse l c = Inl e) \<or> JSON_parse l c = Inr Parsed_falsy)))"
    by (auto simp: loadWalletsFromFile_def split: option.splits sum.splits)
  have a: "\<forall>e1 e2.
      (wallet_file w = None \<or> \<not> fs_read_ok w
        \<or> (\<exists>c. wallet_file w = Some c
               \<and> ((\<exists>e. JSON_parse l c = Inl e) \<or> JSON_parse l c = Inr Parsed_falsy)))
      \<and> mnemonicToEntropy l (generateMnemonic l 256 (rng w)) = Inr e1
      \<and> mnemonicToEntropy l (generateMnemonic l 256 (Suc (rng w))) = Inr e2 \<longrightarrow>
      (let created =
             [\<lparr> mnemonic = generateMnemonic l 256 (rng w),
                 address = to_bech32 l (to_address l
                             (testnet_base_address l (account_key_of_entropy l e1))),
                 type = ''Testnet Address'', name = ''Wallet 1'' \<rparr>,
              \<lparr> mnemonic = generateMnemonic l 256 (Suc (rng w)),
                 address = to_bech32 l (to_address l
                             (testnet_base_address l (account_key_of_entropy l e2))),
                 type = ''Testnet Address'', name = ''Wallet 2'' \<rparr>];
           w' = w\<lparr> rng := Suc (Suc (rng w)),
                   wallet_file := (case fs_write_failure w of
                                     None \<Rightarrow> Some (JSON_stringify l created)
                                   | Some left \<Rightarrow> left) \<rparr>
       in manageWallets l b w = (Created created, w', [])
        \<and> manageWallets_wallet_manager_js l b w = (Created created, w', []))"
  proof (intro allI impI)
    fix e1 e2
    assume h: "(wallet_file w = None \<or> \<not> fs_read_ok w
        \<or> (\<exists>c. wallet_file w = Some c
               \<and> ((\<exists>e. JSON_parse l c = Inl e) \<or> JSON_parse l c = Inr Parsed_falsy)))
      \<and> mnemonicToEntropy l (generateMnemonic l 256 (rng w)) = Inr e1
      \<and> mnemonicToEntropy l (generateMnemonic l 256 (Suc (rng w))) = Inr e2"
    with i have f: "loadWalletsFromFile l w = Parsed_falsy" by blast
    from create_two_wallets_ok [of l "rng w" e1 e2 b] h
    have c: "create_two_wallets l b (rng w) = (Inr [\<lparr> mnemonic = generateMnemonic l 256 (rng w),
                 address = to_bech32 l (to_address l
                             (testnet_base_address l (account_key_of_entropy l e1))),
                 type = ''Testnet Address'', name = ''Wallet 1'' \<rparr>,
              \<lparr> mnemonic = generateMnemonic l 256 (Suc (rng w)),
                 address = to_bech32 l (to_address l
                             (testnet_base_address l (account_key_of_entropy l e2))),
                 type = ''Testnet Address'', name = ''Wallet 2'' \<rparr>], Suc (Suc (rng w)))"
      by blast
    show "(let created =
             [\<lparr> mnemonic = generateMnemonic l 256 (rng w),
                 address = to_bech32 l (to_address l
                             (testnet_base_address l (account_key_of_entropy l e1))),
                 type = ''Testnet Address'', name = ''Wallet 1'' \<rparr>,
              \<lparr> mnemonic = generateMnemonic l 256 (Suc (rng w)),
                 address = to_bech32 l (to_address l
                             (testnet_base_address l (account_key_of_entropy l e2))),
                 type = ''Testnet Address'', name = ''Wallet 2'' \<rparr>];
           w' = w\<lparr> rng := Suc (Suc (rng w)),
                   wallet_file := (case fs_write_failure w of
                                     None \<Rightarrow> Some (JSON_stringify l created)
                                   | Some left \<Rightarrow> left) \<rparr>
       in manageWallets l b w = (Created created, w', [])
        \<and> manageWallets_wallet_manager_js l b w = (Created created, w', []))"
      using f c
      by (simp add: manageWallets_def manageWallets_wallet_manager_js_def
            saveWalletsToFile_def Let_def split: option.splits)
  qed
  have k: "\<forall>c existing. wallet_file w = Some c \<and> fs_read_ok w
         \<and> JSON_parse l c = Inr (Parsed_wallets existing) \<longrightarrow>
         loadWalletsFromFile l w = Parsed_wallets existing
       \<and> fst (snd (manageWallets l b w)) = w
       \<and> fst (snd (manageWallets_wallet_manager_js l b w)) = w"
    by (auto simp: manageWallets_def manageWallets_wallet_manager_js_def
             loadWalletsFromFile_def split: prod.splits option.splits)
  show ?thesis
    apply (intro conjI)
      apply (rule i)
     apply (rule a)
    apply (rule k)
    done
qed

theorem manageWallets_creates_or_keeps_witness:
  "wallet_file (demo_world None) = None
   \<and> mnemonicToEntropy demo_lib (generateMnemonic demo_lib 256 (rng (demo_world None))) = Inr ''0a''
   \<and> mnemonicToEntropy demo_lib (generateMnemonic demo_lib 256 (Suc (rng (demo_world None))))
       = Inr ''0a''
   \<and> manageWallets demo_lib demo_api (demo_world None)
       = (Created [\<lparr> mnemonic = ''m'', address = ''addr_test1'', type = ''Testnet Address'',
                     name = ''Wallet 1'' \<rparr>,
                   \<lparr> mnemonic = ''mm'', address = ''addr_test1'', type = ''Testnet Address'',
                     name = ''Wallet 2'' \<rparr>],
          \<lparr> wallet_file = Some
              ''Wallet 1,addr_test1,m,Testnet Address;Wallet 2,addr_test1,mm,Testnet Address;'',
            fs_read_ok = True, fs_write_failure = None, rng = 2 \<rparr>, [])
   \<and> wallet_file (demo_world (Some ''[]'')) = Some ''[]''
   \<and> fs_read_ok (demo_world (Some ''[]''))
   \<and> JSON_parse demo_lib ''[]'' = Inr (Parsed_wallets [])
   \<and> loadWalletsFromFile demo_lib (demo_world (Some ''[]'')) = Parsed_wallets []
   \<and> fst (snd (manageWallets demo_lib demo_api (demo_world (Some ''[]''))))
       = demo_world (Some ''[]'')"
proof -
  have h1: "wallet_file (demo_world None) = None" by (simp add: demo_world_def)
  have h2: "mnemonicToEntropy demo_lib (generateMnemonic demo_lib 256 (rng (demo_world None)))
      = Inr ''0a''"
    by (simp add: demo_lib_def demo_world_def)
  have h3: "mnemonicToEntropy demo_lib (generateMnemonic demo_lib 256 (Suc (rng (demo_world None))))
      = Inr ''0a''"
    by (simp add: demo_lib_def demo_world_def)
  note t = manageWallets_creates_or_keeps [of demo_lib "demo_world None" demo_api]
  from t [THEN conjunct2, THEN conjunct1, rule_format, OF conjI [OF disjI1 [OF h1] conjI [OF h2 h3]]]
  have c: "manageWallets demo_lib demo_api (demo_world None)
       = (Created [\<lparr> mnemonic = ''m'', address = ''addr_test1'', type = ''Testnet Address'',
                     name = ''Wallet 1'' \<rparr>,
                   \<lparr> mnemonic = ''mm'', address = ''addr_test1'', type = ''Testnet Address'',
                     name = ''Wallet 2'' \<rparr>],
          \<lparr> wallet_file = Some
              ''Wallet 1,addr_test1,m,Testnet Address;Wallet 2,addr_test1,mm,Testnet Address;'',
            fs_read_ok = True, fs_write_failure = None, rng = 2 \<rparr>, [])"
    by (simp add: Let_def demo_world_def demo_lib_def)
  have k1: "wallet_file (demo_world (Some ''[]'')) = Some ''[]''" by (simp add: demo_world_def)
  have k2: "fs_read_ok (demo_world (Some ''[]''))" by (simp add: demo_world_def)
  have k3: "JSON_parse demo_lib ''[]'' = Inr (Parsed_wallets [])" by (simp add: demo_lib_def)
  note u = manageWallets_creates_or_keeps [of demo_lib "demo_world (Some ''[]'')" demo_api]
  note v = u [THEN conjunct2, THEN conjunct2, rule_format, OF conjI [OF k1 conjI [OF k2 k3]]]
  show ?thesis
    apply (intro conjI)
            apply (rule h1)
           apply (rule h2)
          apply (rule h3)
         apply (rule c)
        apply (rule k1)
       apply (rule k2)
      apply (rule k3)
     apply (rule v [THEN conjunct1])
    apply (rule v [THEN conjunct2, THEN conjunct1])
    done
qed

text \<open>
  The claim that a present file is never rewritten fails: a file that exists but does
  not parse (here the empty file) is treated like an absent one; two wallets are created
  and the file is overwritten.
\<close>

theorem manageWallets_overwrites_unparseable_file:
  "wallet_file (demo_world (Some [])) = Some []
   \<and> manageWallets demo_lib demo_api (demo_world (Some []))
     = (Created [\<lparr> mnemonic = ''m'', address = ''addr_test1'', type = ''Testnet Address'',
                     name = ''Wallet 1'' \<rparr>,
                   \<lparr> mnemonic = ''mm'', address = ''addr_test1'', type = ''Testnet Address'',
                     name = ''Wallet 2'' \<rparr>],
          \<lparr> wallet_file = Some
              ''Wallet 1,addr_test1,m,Testnet Address;Wallet 2,addr_test1,mm,Testnet Address;'',
            fs_read_ok = True, fs_write_failure = None, rng = 2 \<rparr>, [])"
  by (simp add: manageWallets_def loadWalletsFromFile_def create_two_wallets_def
        createTestnetWallet_def saveWalletsToFile_def demo_lib_def demo_world_def Let_def)

subsection \<open>The network tag\<close>

text \<open>
  C10. Whatever the configuration \<open>b\<close> (the network selector is one of its fields), the
  result of \<open>createTestnetWallet\<close> is the same as under any other configuration \<open>b'\<close>,
  and a wallet it returns has type \<open>'Testnet Address'\<close> and the address that encodes a
  base address whose network id is the one of \<open>NetworkInfo.testnet()\<close>, not the one of
  \<open>NetworkInfo.mainnet()\<close>.
\<close>

theorem createTestnetWallet_testnet:
  "createTestnetWallet l b n m = createTestnetWallet l b' n m \<and>
   (\<forall>w r. createTestnetWallet l b n m = (Inr w, r) \<longrightarrow>
      type w = ''Testnet Address'' \<and>
      (\<exists>k. address w = to_bech32 l (to_address l (testnet_base_address l k))
          \<and> network_id (testnet_base_address l k) = NetworkInfo_testnet_network_id
          \<and> network_id (testnet_base_address l k) \<noteq> NetworkInfo_mainnet_network_id))"
  by (auto simp: createTestnetWallet_def testnet_base_address_def Let_def
           NetworkInfo_testnet_network_id_def NetworkInfo_mainnet_network_id_def
           split: option.splits sum.splits if_splits prod.splits)

theorem createTestnetWallet_testnet_witness:
  "createTestnetWallet demo_lib (demo_api\<lparr> network := ''mainnet'' \<rparr>) 0 None
     = (Inr \<lparr> mnemonic = ''m'', address = ''addr_test1'', type = ''Testnet Address'' \<rparr>, 1) \<and>
   createTestnetWallet demo_lib (demo_api\<lparr> network := ''mainnet'' \<rparr>) 0 None
     = createTestnetWallet demo_lib (demo_api\<lparr> network := ''preview'' \<rparr>) 0 None \<and>
   (\<exists>k. ''addr_test1'' = to_bech32 demo_lib (to_address demo_lib (testnet_base_address demo_lib k))
       \<and> network_id (testnet_base_address demo_lib k) = NetworkInfo_testnet_network_id
       \<and> network_id (testnet_base_address demo_lib k) \<noteq> NetworkInfo_mainnet_network_id)"
proof -
  have e: "createTestnetWallet demo_lib (demo_api\<lparr> network := ''mainnet'' \<rparr>) 0 None
     = (Inr \<lparr> mnemonic = ''m'', address = ''addr_test1'', type = ''Testnet Address'' \<rparr>, 1)"
    by (simp add: createTestnetWallet_def demo_lib_def Let_def)
  from createTestnetWallet_testnet [of demo_lib "demo_api\<lparr> network := ''mainnet'' \<rparr>" 0 None
      "demo_api\<lparr> network := ''preview'' \<rparr>"] e
  show ?thesis by auto
qed

end
